theory Spec2Isabelle
  imports Complex_Main "HOL-Library.AList"
begin

unbundle bit_operations_syntax

section \<open>Python values, exceptions and dictionaries\<close>

text \<open>
  The exceptions that the code of \<^verbatim>\<open>synscanMotors.py\<close> raises itself or that the
  Python operations it uses raise: \<^verbatim>\<open>NameError\<close> (with its message) is the one the
  module raises and catches; the others come from indexing, \<^verbatim>\<open>int(c, 16)\<close>, dictionary
  lookup, arithmetic on a value of the wrong type, division by zero and the conversion
  of an integer too large for a float.
\<close>

datatype exn =
    NameError string
  | KeyError
  | TypeError
  | ValueError
  | IndexError
  | ZeroDivisionError
  | OverflowError

text \<open>
  A Python \<^verbatim>\<open>dict\<close> keeps its keys in insertion order; it is an association list with
  distinct keys. \<^verbatim>\<open>d[k] = v\<close> is \<^const>\<open>AList.update\<close> (an existing key keeps its place,
  a new key goes to the end), \<^verbatim>\<open>d[k]\<close> is \<^const>\<open>map_of\<close> with \<^verbatim>\<open>KeyError\<close> for a
  missing key, and \<^verbatim>\<open>{}\<close> is the empty list.
\<close>

type_synonym ('k, 'v) dict = "('k \<times> 'v) list"

definition setitem :: "('k, 'v) dict \<Rightarrow> 'k \<Rightarrow> 'v \<Rightarrow> ('k, 'v) dict" where
  "setitem d k v = AList.update k v d"

definition getitem :: "('k, 'v) dict \<Rightarrow> 'k \<Rightarrow> exn + 'v" where
  "getitem d k = (case map_of d k of None \<Rightarrow> Inl KeyError | Some v \<Rightarrow> Inr v)"

text \<open>
  A Python \<^verbatim>\<open>str\<close> is a sequence of Unicode code points. \<open>str\<close> gives the \<^verbatim>\<open>str\<close> that an
  ASCII literal of the source or of an example spells. The keys of the dictionaries and
  the command letters are literals of the module and stay HOL strings.
\<close>

type_synonym pystr = "nat list"

definition str :: "string \<Rightarrow> pystr" where
  "str s = map of_char s"

text \<open>
  The values held by the dictionaries of the module: an integer reply of the transport,
  a string reply (the status word), and the decoded status (a dictionary from flag names
  to booleans).
\<close>

datatype pyval =
    PInt int
  | PStr pystr
  | PDict "(string, bool) dict"

text \<open>The exception of a result, if it is one.\<close>

definition raised :: "exn + 'a \<Rightarrow> exn option" where
  "raised r = (case r of Inl e \<Rightarrow> Some e | Inr _ \<Rightarrow> None)"

section \<open>Status decoder\<close>

text \<open>
  \<^verbatim>\<open>hexstring[i]\<close> for a literal index \<open>i \<ge> 0\<close>: \<^verbatim>\<open>IndexError\<close> past the end.
\<close>

definition char_at :: "pystr \<Rightarrow> nat \<Rightarrow> exn + nat" where
  "char_at s i = (if i < length s then Inr (s ! i) else Inl IndexError)"

text \<open>
  \<^verbatim>\<open>int(c, 16)\<close> for a one-character string \<open>c\<close>. An ASCII character (a code point
  below 128) is parsed as it is: the digits \<^verbatim>\<open>0-9\<close>, \<^verbatim>\<open>a-f\<close> and \<^verbatim>\<open>A-F\<close> have a value, every
  other one (white space, sign, underscore included: nothing is left of them to parse)
  raises \<^verbatim>\<open>ValueError\<close>. Any other character is first replaced by the ASCII digit of
  its decimal value, if the interpreter's Unicode database gives it one (U+0663 has
  the value 3), and raises \<^verbatim>\<open>ValueError\<close> otherwise (white space has no decimal value).
  The database is not part of the module: its decimal values are the parameter \<open>dec\<close>
  of the decoder.
\<close>

type_synonym unicode_decimal = "nat \<Rightarrow> nat option"

definition hexdigits :: "(nat \<times> int) list" where
  "hexdigits =
    zip (str ''0123456789abcdefABCDEF'')
        [0, 1, 2, 3, 4, 5, 6, 7, 8, 9, 10, 11, 12, 13, 14, 15, 10, 11, 12, 13, 14, 15]"

definition is_hexdigit :: "nat \<Rightarrow> bool" where
  "is_hexdigit c = (c \<in> set (str ''0123456789abcdefABCDEF''))"

definition int16 :: "unicode_decimal \<Rightarrow> nat \<Rightarrow> exn + int" where
  "int16 dec c =
    (if c < 128
     then (case map_of hexdigits c of None \<Rightarrow> Inl ValueError | Some n \<Rightarrow> Inr n)
     else (case dec c of None \<Rightarrow> Inl ValueError | Some d \<Rightarrow> Inr (int d)))"

text \<open>The characters that \<^verbatim>\<open>int(c, 16)\<close> accepts.\<close>

definition int16_accepts :: "unicode_decimal \<Rightarrow> nat \<Rightarrow> bool" where
  "int16_accepts dec c = (if c < 128 then is_hexdigit c else dec c \<noteq> None)"

text \<open>\<^verbatim>\<open>int(hexstring[i], 16)\<close>: the indexing is evaluated first.\<close>

definition hex_at :: "unicode_decimal \<Rightarrow> pystr \<Rightarrow> nat \<Rightarrow> exn + int" where
  "hex_at dec hexstring i =
    (case char_at hexstring i of Inl e \<Rightarrow> Inl e | Inr c \<Rightarrow> int16 dec c)"

text \<open>\<^verbatim>\<open>bool(n)\<close> and \<^verbatim>\<open>not(n)\<close> on an integer.\<close>

definition py_bool :: "int \<Rightarrow> bool" where
  "py_bool n = (n \<noteq> 0)"

definition py_not :: "int \<Rightarrow> bool" where
  "py_not n = (n = 0)"

text \<open>
  \<^verbatim>\<open>decode_status\<close> (lines 146-176). The three digits are read in order, so the first
  position that cannot be read decides the exception. The status dictionary is filled in
  the order of the source; \<^verbatim>\<open>LevelSwitchOn\<close> is computed from \<open>B\<close>, as line 175 does.
\<close>

definition decode_status :: "unicode_decimal \<Rightarrow> pystr \<Rightarrow> exn + (string, bool) dict" where
  "decode_status dec hexstring =
    (case hex_at dec hexstring 0 of Inl e \<Rightarrow> Inl e | Inr A \<Rightarrow>
    (case hex_at dec hexstring 1 of Inl e \<Rightarrow> Inl e | Inr B \<Rightarrow>
    (case hex_at dec hexstring 2 of Inl e \<Rightarrow> Inl e | Inr C \<Rightarrow>
       (let status = [];
            status = setitem status ''Tracking'' (py_bool (A AND 1));
            status = setitem status ''CCW'' (py_bool (drop_bit 1 (A AND 2)));
            status = setitem status ''FastSpeed'' (py_bool (drop_bit 2 (A AND 4)));
            status = setitem status ''Stopped'' (py_not (B AND 1));
            status = setitem status ''Blocked'' (py_bool (drop_bit 1 (B AND 2)));
            status = setitem status ''InitDone'' (py_not (C AND 1));
            status = setitem status ''LevelSwitchOn'' (py_bool (drop_bit 1 (B AND 2)))
        in Inr status))))"

text \<open>
  \<^verbatim>\<open>decode_status\<close> on any value: a string is decoded; an integer cannot be indexed
  (\<^verbatim>\<open>TypeError\<close>); a dictionary with string keys has no key \<open>0\<close> (\<^verbatim>\<open>KeyError\<close>).
\<close>

definition decode_status_of :: "unicode_decimal \<Rightarrow> pyval \<Rightarrow> exn + (string, bool) dict" where
  "decode_status_of dec v =
    (case v of PStr hexstring \<Rightarrow> decode_status dec hexstring
     | PInt n \<Rightarrow> Inl TypeError
     | PDict d \<Rightarrow> Inl KeyError)"

section \<open>Transport\<close>

text \<open>
  The arguments of one call \<^verbatim>\<open>send_cmd(cmd, axis, data, ndigits=...)\<close>; \<open>None\<close> stands
  for an argument left to its default.
\<close>

record call =
  c_cmd :: string
  c_axis :: int
  c_data :: "int option"
  c_ndigits :: "nat option"

text \<open>
  Modelled from the spec: \<^verbatim>\<open>send_cmd\<close> is inherited from \<^verbatim>\<open>synscanComm\<close>, which is not
  part of the source at hand. The spec gives its contract: one blocking round trip that
  returns the decoded reply or fails with a communication error. The handlers of
  \<^verbatim>\<open>get_values\<close>, \<^verbatim>\<open>get_parameters\<close> and \<^verbatim>\<open>get_current_values\<close> catch that error as
  \<^verbatim>\<open>NameError\<close>. The reply is an integer, or a string where the caller indexes it (the
  status word). The transport is a parameter of every operation: what it answers to
  each call. Within one run of \<^verbatim>\<open>get_values\<close> every pair of command and axis is sent
  at most once, so a function of the call describes every run.
\<close>

datatype reply = CommFailure string | Reply pyval

text \<open>The call \<^verbatim>\<open>send_cmd(cmd, axis)\<close>, with no data and the default width.\<close>

abbreviation query :: "string \<Rightarrow> int \<Rightarrow> call" where
  "query cmd axis \<equiv> \<lparr>c_cmd = cmd, c_axis = axis, c_data = None, c_ndigits = None\<rparr>"

type_synonym transport = "call \<Rightarrow> reply"

definition send_cmd :: "transport \<Rightarrow> call \<Rightarrow> exn + pyval" where
  "send_cmd tr c = (case tr c of CommFailure msg \<Rightarrow> Inl (NameError msg) | Reply v \<Rightarrow> Inr v)"

section \<open>Motor control facade\<close>

type_synonym fields = "(string, pyval) dict"
type_synonym axis_values = "(int, fields) dict"

text \<open>The attributes of the object that the methods read and write.\<close>

record synscanMotors =
  self_params :: axis_values
  self_CPR :: axis_values

text \<open>\<^verbatim>\<open>params[axis][parameter]\<close> and \<^verbatim>\<open>params[axis][parameter] = v\<close>.\<close>

definition getitem2 :: "axis_values \<Rightarrow> int \<Rightarrow> string \<Rightarrow> exn + pyval" where
  "getitem2 params axis parameter =
    (case getitem params axis of Inl e \<Rightarrow> Inl e | Inr d \<Rightarrow> getitem d parameter)"

definition setitem2 :: "axis_values \<Rightarrow> int \<Rightarrow> string \<Rightarrow> pyval \<Rightarrow> exn + axis_values" where
  "setitem2 params axis parameter v =
    (case getitem params axis of Inl e \<Rightarrow> Inl e
     | Inr d \<Rightarrow> Inr (setitem params axis (setitem d parameter v)))"

subsection \<open>Unit conversion\<close>

text \<open>
  The numbers of the unit conversion are Python integers (exact, unbounded) and floats.
  A float is a finite value, an infinity with its sign (\<open>True\<close> for \<open>+inf\<close>) or NaN. The
  two zeros are one value here: they compare equal and both raise as a divisor.
\<close>

datatype pyfloat = Finite real | Infinity bool | NaN

datatype pynum = PyInt int | PyFloat pyfloat

text \<open>
  The rounding of the float format (on CPython the binary64 format: to the nearest
  float, to zero on underflow, to an infinity on overflow) is not part of the module: it
  is the parameter \<open>rnd\<close> of the conversions, which gives the finite float that an exact
  result is rounded to, or \<open>None\<close> when the result overflows. Nothing else is assumed
  about it. What does not depend on the format is written out: an exact zero is not
  rounded, an overflow gives the infinity of the sign of the exact result, and an
  integer of at most 53 bits converts exactly.
\<close>

type_synonym rounding = "real \<Rightarrow> real option"

definition fround :: "rounding \<Rightarrow> real \<Rightarrow> pyfloat" where
  "fround rnd x =
    (if x = 0 then Finite 0
     else (case rnd x of None \<Rightarrow> Infinity (0 < x) | Some y \<Rightarrow> Finite y))"

text \<open>
  The conversion of an integer operand to a float, \<^verbatim>\<open>OverflowError\<close> when the integer
  is beyond the largest float.
\<close>

definition to_float :: "rounding \<Rightarrow> int \<Rightarrow> exn + pyfloat" where
  "to_float rnd n =
    (if \<bar>n\<bar> \<le> 2 ^ 53 then Inr (Finite (real_of_int n))
     else (case rnd (real_of_int n) of None \<Rightarrow> Inl OverflowError
           | Some y \<Rightarrow> Inr (Finite y)))"

text \<open>The product of two floats: never an exception.\<close>

fun fmul :: "rounding \<Rightarrow> pyfloat \<Rightarrow> pyfloat \<Rightarrow> pyfloat" where
  "fmul rnd NaN b = NaN"
| "fmul rnd a NaN = NaN"
| "fmul rnd (Infinity s) (Infinity t) = Infinity (s = t)"
| "fmul rnd (Infinity s) (Finite y) = (if y = 0 then NaN else Infinity (s = (0 < y)))"
| "fmul rnd (Finite x) (Infinity t) = (if x = 0 then NaN else Infinity (t = (0 < x)))"
| "fmul rnd (Finite x) (Finite y) = fround rnd (x * y)"

text \<open>
  The true division of two floats: \<^verbatim>\<open>ZeroDivisionError\<close> on a zero divisor, whatever the
  dividend; no other exception.
\<close>

fun fquot :: "rounding \<Rightarrow> pyfloat \<Rightarrow> pyfloat \<Rightarrow> pyfloat" where
  "fquot rnd NaN b = NaN"
| "fquot rnd a NaN = NaN"
| "fquot rnd (Infinity s) (Infinity t) = NaN"
| "fquot rnd (Infinity s) (Finite y) = Infinity (s = (0 < y))"
| "fquot rnd (Finite x) (Infinity t) = Finite 0"
| "fquot rnd (Finite x) (Finite y) = fround rnd (x / y)"

definition fdiv :: "rounding \<Rightarrow> pyfloat \<Rightarrow> pyfloat \<Rightarrow> exn + pyfloat" where
  "fdiv rnd a b = (if b = Finite 0 then Inl ZeroDivisionError else Inr (fquot rnd a b))"

text \<open>
  \<^verbatim>\<open>x * n\<close> for a number \<open>x\<close> and an integer \<open>n\<close>: exact on integers; on a float the
  integer is converted first.
\<close>

fun py_mul :: "rounding \<Rightarrow> pynum \<Rightarrow> int \<Rightarrow> exn + pynum" where
  "py_mul rnd (PyInt a) n = Inr (PyInt (a * n))"
| "py_mul rnd (PyFloat f) n =
    (case to_float rnd n of Inl e \<Rightarrow> Inl e | Inr g \<Rightarrow> Inr (PyFloat (fmul rnd f g)))"

text \<open>
  \<^verbatim>\<open>x / y\<close>, always a float. Two integers are divided exactly and the quotient rounded
  once (\<^verbatim>\<open>ZeroDivisionError\<close> on zero, \<^verbatim>\<open>OverflowError\<close> when the quotient is beyond the
  largest float); otherwise an integer operand is converted and the floats divided.
\<close>

fun py_truediv :: "rounding \<Rightarrow> pynum \<Rightarrow> pynum \<Rightarrow> exn + pyfloat" where
  "py_truediv rnd (PyInt a) (PyInt b) =
    (if b = 0 then Inl ZeroDivisionError
     else (case fround rnd (real_of_int a / real_of_int b) of
             Infinity s \<Rightarrow> Inl OverflowError | f \<Rightarrow> Inr f))"
| "py_truediv rnd (PyFloat f) (PyInt b) =
    (case to_float rnd b of Inl e \<Rightarrow> Inl e | Inr g \<Rightarrow> fdiv rnd f g)"
| "py_truediv rnd (PyInt a) (PyFloat g) =
    (case to_float rnd a of Inl e \<Rightarrow> Inl e | Inr f \<Rightarrow> fdiv rnd f g)"
| "py_truediv rnd (PyFloat f) (PyFloat g) = fdiv rnd f g"

text \<open>
  A cached parameter enters the arithmetic as the integer the transport replied. With
  a string or a dictionary in its place the expression raises \<^verbatim>\<open>TypeError\<close> (for an
  integer times a string at the division that follows, the product being a string).
\<close>

definition int_of :: "pyval \<Rightarrow> exn + int" where
  "int_of v = (case v of PInt n \<Rightarrow> Inr n | _ \<Rightarrow> Inl TypeError)"

text \<open>\<^verbatim>\<open>degrees2counts\<close> (lines 69-73): \<^verbatim>\<open>degrees*CPR/360\<close>.\<close>

definition degrees2counts :: "rounding \<Rightarrow> synscanMotors \<Rightarrow> int \<Rightarrow> pynum \<Rightarrow> exn + pyfloat" where
  "degrees2counts rnd self axis degrees =
    (case getitem2 (self_params self) axis ''countsPerRevolution'' of Inl e \<Rightarrow> Inl e
     | Inr CPR \<Rightarrow>
    (case int_of CPR of Inl e \<Rightarrow> Inl e
     | Inr CPR \<Rightarrow>
    (case py_mul rnd degrees CPR of Inl e \<Rightarrow> Inl e
     | Inr product \<Rightarrow> py_truediv rnd product (PyInt 360))))"

text \<open>\<^verbatim>\<open>T1preset\<close> (lines 81-85): \<^verbatim>\<open>TMR_Freq/countsPerSecond\<close>.\<close>

definition T1preset :: "rounding \<Rightarrow> synscanMotors \<Rightarrow> int \<Rightarrow> pynum \<Rightarrow> exn + pyfloat" where
  "T1preset rnd self axis degreesPerSecond =
    (case degrees2counts rnd self axis degreesPerSecond of Inl e \<Rightarrow> Inl e
     | Inr countsPerSecond \<Rightarrow>
    (case getitem2 (self_params self) axis ''TimerInterruptFreq'' of Inl e \<Rightarrow> Inl e
     | Inr TMR_Freq \<Rightarrow>
    (case int_of TMR_Freq of Inl e \<Rightarrow> Inl e
     | Inr TMR_Freq \<Rightarrow> py_truediv rnd (PyInt TMR_Freq) (PyFloat countsPerSecond))))"

subsection \<open>Fetching values\<close>

text \<open>
  The inner loop of \<^verbatim>\<open>get_values\<close> (lines 97-102) over the items of
  \<^verbatim>\<open>parameterDict\<close>: a \<^verbatim>\<open>NameError\<close> of the transport is replaced by
  \<^verbatim>\<open>NameError('getValuesError')\<close>, any other exception passes through.
\<close>

fun get_values_items :: "transport \<Rightarrow> int \<Rightarrow> (string, string) dict \<Rightarrow> axis_values \<Rightarrow> exn + axis_values" where
  "get_values_items tr axis [] params = Inr params"
| "get_values_items tr axis ((parameter, cmd) # items) params =
    (case send_cmd tr (query cmd axis) of
       Inl e \<Rightarrow>
         (case e of NameError error \<Rightarrow> Inl (NameError ''getValuesError'') | _ \<Rightarrow> Inl e)
     | Inr v \<Rightarrow>
         (case setitem2 params axis parameter v of Inl e \<Rightarrow> Inl e
          | Inr params \<Rightarrow> get_values_items tr axis items params))"

text \<open>The outer loop (lines 95-96) over the axes.\<close>

fun get_values_axes :: "transport \<Rightarrow> int list \<Rightarrow> (string, string) dict \<Rightarrow> axis_values \<Rightarrow> exn + axis_values" where
  "get_values_axes tr [] parameterDict params = Inr params"
| "get_values_axes tr (axis # axes) parameterDict params =
    (case get_values_items tr axis parameterDict (setitem params axis []) of
       Inl e \<Rightarrow> Inl e
     | Inr params \<Rightarrow> get_values_axes tr axes parameterDict params)"

definition get_values :: "transport \<Rightarrow> (string, string) dict \<Rightarrow> exn + axis_values" where
  "get_values tr parameterDict = get_values_axes tr [1, 2] parameterDict []"

text \<open>
  \<^verbatim>\<open>get_parameters\<close> (lines 105-124): a \<^verbatim>\<open>NameError\<close> of \<^verbatim>\<open>get_values\<close> becomes
  \<^verbatim>\<open>NameError('getParametersError')\<close> (the \<^verbatim>\<open>return {}\<close> after the \<^verbatim>\<open>raise\<close> is never
  reached); on success the result is also stored in \<^verbatim>\<open>self.CPR\<close>.
\<close>

definition parameterDict_parameters :: "(string, string) dict" where
  "parameterDict_parameters =
    [(''countsPerRevolution'', ''a''), (''TimerInterruptFreq'', ''b''),
     (''StepPeriod'', ''i''), (''MotorBoardVersion'', ''e'')]"

definition get_parameters :: "transport \<Rightarrow> synscanMotors \<Rightarrow> (exn + axis_values) \<times> synscanMotors" where
  "get_parameters tr self =
    (case get_values tr parameterDict_parameters of
       Inl e \<Rightarrow>
         (case e of NameError error \<Rightarrow> (Inl (NameError ''getParametersError''), self)
          | _ \<Rightarrow> (Inl e, self))
     | Inr params \<Rightarrow> (Inr params, self\<lparr>self_CPR := params\<rparr>))"

text \<open>\<^verbatim>\<open>v - 0x800000\<close>: defined on an integer only.\<close>

definition py_sub :: "pyval \<Rightarrow> int \<Rightarrow> exn + pyval" where
  "py_sub v k = (case v of PInt n \<Rightarrow> Inr (PInt (n - k)) | _ \<Rightarrow> Inl TypeError)"

text \<open>
  The loops of \<^verbatim>\<open>get_current_values\<close>: lines 139-141 for one parameter over the axes,
  line 138 over the two parameters, lines 142-143 decoding the status of each axis. The
  right-hand side of each assignment is evaluated before the store.
\<close>

fun offset_axes :: "string \<Rightarrow> int list \<Rightarrow> axis_values \<Rightarrow> exn + axis_values" where
  "offset_axes parameter [] params = Inr params"
| "offset_axes parameter (axis # axes) params =
    (case getitem2 params axis parameter of Inl e \<Rightarrow> Inl e
     | Inr v \<Rightarrow>
    (case py_sub v 0x800000 of Inl e \<Rightarrow> Inl e
     | Inr v' \<Rightarrow>
    (case setitem2 params axis parameter v' of Inl e \<Rightarrow> Inl e
     | Inr params \<Rightarrow> offset_axes parameter axes params)))"

fun offset_parameters :: "string list \<Rightarrow> axis_values \<Rightarrow> exn + axis_values" where
  "offset_parameters [] params = Inr params"
| "offset_parameters (parameter # parameters) params =
    (case offset_axes parameter [1, 2] params of Inl e \<Rightarrow> Inl e
     | Inr params \<Rightarrow> offset_parameters parameters params)"

fun decode_axes :: "unicode_decimal \<Rightarrow> int list \<Rightarrow> axis_values \<Rightarrow> exn + axis_values" where
  "decode_axes dec [] params = Inr params"
| "decode_axes dec (axis # axes) params =
    (case getitem2 params axis ''Status'' of Inl e \<Rightarrow> Inl e
     | Inr v \<Rightarrow>
    (case decode_status_of dec v of Inl e \<Rightarrow> Inl e
     | Inr status \<Rightarrow>
    (case setitem2 params axis ''Status'' (PDict status) of Inl e \<Rightarrow> Inl e
     | Inr params \<Rightarrow> decode_axes dec axes params)))"

definition parameterDict_current :: "(string, string) dict" where
  "parameterDict_current =
    [(''GotoTarget'', ''h''), (''Position'', ''j''), (''StepPeriod'', ''i''), (''Status'', ''f'')]"

text \<open>
  \<^verbatim>\<open>get_current_values\<close> (lines 126-144): a \<^verbatim>\<open>NameError\<close> of \<^verbatim>\<open>get_values\<close> is caught and
  the empty dictionary returned; exceptions of the later loops are not caught.
\<close>

definition get_current_values :: "unicode_decimal \<Rightarrow> transport \<Rightarrow> exn + axis_values" where
  "get_current_values dec tr =
    (case get_values tr parameterDict_current of
       Inl e \<Rightarrow> (case e of NameError error \<Rightarrow> Inr [] | _ \<Rightarrow> Inl e)
     | Inr params \<Rightarrow>
    (case offset_parameters [''GotoTarget'', ''Position''] params of Inl e \<Rightarrow> Inl e
     | Inr params \<Rightarrow> decode_axes dec [1, 2] params))"

subsection \<open>Motion commands\<close>

text \<open>
  \<^verbatim>\<open>set_motion_mode\<close> (lines 179-212). The flags are Python booleans, which \<^verbatim>\<open>&\<close>
  reads as 0 and 1. The reply of the transport is returned as it is.
\<close>

definition set_motion_mode :: "transport \<Rightarrow> int \<Rightarrow> bool \<Rightarrow> bool \<Rightarrow> bool \<Rightarrow> exn + pyval" where
  "set_motion_mode tr axis Tracking fastSpeed CW =
    (let speedBit = (if Tracking then (if fastSpeed then 0x0 else 0x1)
                     else (if fastSpeed then 0x1 else 0x0));
         val = (of_bool Tracking AND 0x01) OR (push_bit 1 speedBit)
                 OR (push_bit 7 (of_bool CW AND 0x01))
     in send_cmd tr \<lparr>c_cmd = ''G'', c_axis = axis, c_data = Some val, c_ndigits = Some 2\<rparr>)"



section \<open>Simulated mounts\<close>

text \<open>
  Two transports and a parameter cache for the worked examples: a mount that answers
  every query (status word \<^verbatim>\<open>"101"\<close>, counts per revolution 9024000, timer frequency
  64935, any other value \<open>0x800000 + 100 * axis\<close>), the same mount with the step-period
  query of axis 2 timing out, and the cache of axis 1 after a successful start.
\<close>

definition mount_sim :: transport where
  "mount_sim c =
    (if c_cmd c = ''f'' then Reply (PStr (str ''101''))
     else if c_cmd c = ''a'' then Reply (PInt 9024000)
     else if c_cmd c = ''b'' then Reply (PInt 64935)
     else Reply (PInt (0x800000 + 100 * c_axis c)))"

definition mount_sim_timeout :: transport where
  "mount_sim_timeout c =
    (if c_cmd c = ''i'' \<and> c_axis c = 2 then CommFailure ''SynScanSocketTimeOut''
     else mount_sim c)"

definition mount_cache :: synscanMotors where
  "mount_cache =
    \<lparr>self_params =
       [(1, [(''countsPerRevolution'', PInt 9024000), (''TimerInterruptFreq'', PInt 64935)])],
     self_CPR = []\<rparr>"

section \<open>Properties of the status decoder\<close>

lemma int16_cases:
  "int16 dec c = Inl ValueError \<and> \<not> int16_accepts dec c
   \<or> (\<exists>n. int16 dec c = Inr n) \<and> int16_accepts dec c"
  by (auto simp: int16_def int16_accepts_def hexdigits_def is_hexdigit_def str_def
      split: if_splits option.splits)

text \<open>
  The value of a hex digit: the character at place \<open>A\<close> of the sixteen digits, in lower
  or in upper case, parses to \<open>A\<close>; and every hex digit is one of these.
\<close>

lemma int16_digit:
  assumes "A < 16"
  shows "int16 dec (str ''0123456789abcdef'' ! A) = Inr (int A)
       \<and> int16 dec (str ''0123456789ABCDEF'' ! A) = Inr (int A)"
proof -
  from assms have "A = 0 \<or> A = 1 \<or> A = 2 \<or> A = 3 \<or> A = 4 \<or> A = 5 \<or> A = 6 \<or> A = 7
      \<or> A = 8 \<or> A = 9 \<or> A = 10 \<or> A = 11 \<or> A = 12 \<or> A = 13 \<or> A = 14 \<or> A = 15"
    by arith
  then show ?thesis
    by (elim disjE) (simp_all add: int16_def hexdigits_def str_def)
qed

lemma is_hexdigit_digit:
  "is_hexdigit c =
     (\<exists>A<16. c = str ''0123456789abcdef'' ! A \<or> c = str ''0123456789ABCDEF'' ! A)"
proof
  assume "is_hexdigit c"
  then have "c \<in> set (str ''0123456789abcdef'') \<or> c \<in> set (str ''0123456789ABCDEF'')"
    by (auto simp: is_hexdigit_def str_def)
  then show "\<exists>A<16. c = str ''0123456789abcdef'' ! A \<or> c = str ''0123456789ABCDEF'' ! A"
  proof
    assume "c \<in> set (str ''0123456789abcdef'')"
    then obtain A where A: "A < length (str ''0123456789abcdef'')"
      and c: "str ''0123456789abcdef'' ! A = c"
      by (auto simp: in_set_conv_nth)
    from A have "A < 16" by (simp add: str_def)
    with c show ?thesis by blast
  next
    assume "c \<in> set (str ''0123456789ABCDEF'')"
    then obtain A where A: "A < length (str ''0123456789ABCDEF'')"
      and c: "str ''0123456789ABCDEF'' ! A = c"
      by (auto simp: in_set_conv_nth)
    from A have "A < 16" by (simp add: str_def)
    with c show ?thesis by blast
  qed
next
  assume "\<exists>A<16. c = str ''0123456789abcdef'' ! A \<or> c = str ''0123456789ABCDEF'' ! A"
  then obtain A where "A < 16"
    and c: "c = str ''0123456789abcdef'' ! A \<or> c = str ''0123456789ABCDEF'' ! A"
    by blast
  then have "int16 Map.empty c = Inr (int A)"
    using int16_digit [of A Map.empty] by auto
  then show "is_hexdigit c"
    by (auto simp: int16_def split: if_splits option.splits
        dest: map_of_SomeD simp: hexdigits_def is_hexdigit_def str_def)
qed

lemma hex_at_err: "hex_at dec s i = Inl e \<Longrightarrow> e = ValueError \<or> e = IndexError"
  using int16_cases [of dec "s ! i"] by (auto simp: hex_at_def char_at_def split: if_splits)

text \<open>The bit tests of the decoder, read as bits of the digit.\<close>

lemma py_bool_and_1: "py_bool (A AND 1) = bit A 0"
  by (simp add: py_bool_def and_one_eq bit_0 even_iff_mod_2_eq_zero)

lemma py_not_and_1: "py_not (A AND 1) = (\<not> bit A 0)"
  by (simp add: py_not_def and_one_eq bit_0 even_iff_mod_2_eq_zero)

lemma py_bool_mask: "py_bool (drop_bit n (A AND 2 ^ n)) = bit A n"
proof -
  have "drop_bit n (A AND 2 ^ n) = drop_bit n A AND 1"
    by (simp add: drop_bit_exp_eq)
  then show ?thesis
    by (simp add: py_bool_def and_one_eq bit_iff_odd_drop_bit even_iff_mod_2_eq_zero)
qed

lemma py_bool_and_2: "py_bool (drop_bit 1 (A AND 2)) = bit A 1"
  using py_bool_mask [of 1 A] by simp

lemma py_bool_and_4: "py_bool (drop_bit 2 (A AND 4)) = bit A 2"
  using py_bool_mask [of 2 A] by simp

lemma decode_status_digits:
  assumes "int16 dec a = Inr A" and "int16 dec b = Inr B" and "int16 dec c = Inr C"
  shows "decode_status dec (a # b # c # rest) =
     Inr [(''Tracking'', bit A 0), (''CCW'', bit A 1), (''FastSpeed'', bit A 2),
          (''Stopped'', \<not> bit B 0), (''Blocked'', bit B 1), (''InitDone'', \<not> bit C 0),
          (''LevelSwitchOn'', bit B 1)]"
  using assms
  unfolding decode_status_def py_bool_and_1 py_not_and_1 py_bool_and_2 py_bool_and_4
  by (simp add: hex_at_def char_at_def setitem_def)

lemma decode_status_keys:
  "decode_status dec s = Inr status \<Longrightarrow>
     map fst status = [''Tracking'', ''CCW'', ''FastSpeed'', ''Stopped'', ''Blocked'',
       ''InitDone'', ''LevelSwitchOn'']"
  by (auto simp: decode_status_def setitem_def split: sum.splits)

text \<open>The shapes of a string, as far as the decoder looks.\<close>

lemma pystr_shapes:
  obtains "s = []" | a where "s = [a]" | a b where "s = [a, b]"
    | a b c rest where "s = a # b # c # rest"
proof (cases s)
  case Nil
  then show ?thesis using that by simp
next
  case (Cons a s1)
  note s = this
  show ?thesis
  proof (cases s1)
    case Nil
    then show ?thesis using s that by simp
  next
    case (Cons b s2)
    then show ?thesis using s that by (cases s2) simp_all
  qed
qed

text \<open>
  C1 (as amended). The code decodes \<^verbatim>\<open>"000"\<close> to Tracking, CCW, FastSpeed, Blocked and
  LevelSwitchOn false and Stopped true, and \<^verbatim>\<open>"701"\<close> to Tracking, CCW and FastSpeed true,
  Blocked and LevelSwitchOn false and Stopped true: the second digit 0 has the running
  bit clear. Nothing is stated about InitDone, whose bit the code reads inverted with
  respect to the docstring of \<^verbatim>\<open>decode_status\<close>.
\<close>

theorem decode_status_test_vectors:
  "(\<exists>status. decode_status dec (str ''000'') = Inr status
      \<and> map_of status ''Tracking'' = Some False \<and> map_of status ''CCW'' = Some False
      \<and> map_of status ''FastSpeed'' = Some False \<and> map_of status ''Stopped'' = Some True
      \<and> map_of status ''Blocked'' = Some False \<and> map_of status ''LevelSwitchOn'' = Some False)
   \<and> (\<exists>status. decode_status dec (str ''701'') = Inr status
      \<and> map_of status ''Tracking'' = Some True \<and> map_of status ''CCW'' = Some True
      \<and> map_of status ''FastSpeed'' = Some True \<and> map_of status ''Stopped'' = Some True
      \<and> map_of status ''Blocked'' = Some False \<and> map_of status ''LevelSwitchOn'' = Some False)"
  by (simp add: decode_status_def hex_at_def char_at_def int16_def hexdigits_def setitem_def
      py_bool_def py_not_def str_def)

text \<open>
  C1 as stated fails on \<^verbatim>\<open>"701"\<close>: the code returns Stopped true and InitDone false,
  where the claim has Stopped false and InitDone true.
\<close>

theorem decode_status_701_counterexample:
  "\<forall>dec. decode_status dec (str ''701'') =
     Inr [(''Tracking'', True), (''CCW'', True), (''FastSpeed'', True), (''Stopped'', True),
          (''Blocked'', False), (''InitDone'', False), (''LevelSwitchOn'', False)]
   \<and> \<not> (\<exists>status. decode_status dec (str ''701'') = Inr status
          \<and> map_of status ''Stopped'' = Some False \<and> map_of status ''InitDone'' = Some True)"
  by (simp add: decode_status_def hex_at_def char_at_def int16_def hexdigits_def setitem_def
      py_bool_def py_not_def str_def)

text \<open>
  C2. For every string of three hex digits, the first being the digit of value \<open>A\<close>,
  the second of value \<open>B\<close> and the third of value \<open>C\<close> (each below 16, in lower or in
  upper case), \<^verbatim>\<open>decode_status\<close> returns Tracking = bit 0 of \<open>A\<close>, CCW = bit 1 of \<open>A\<close>,
  FastSpeed = bit 2 of \<open>A\<close>, Stopped = not bit 0 of \<open>B\<close>, Blocked = bit 1 of \<open>B\<close>,
  InitDone = not bit 0 of \<open>C\<close>, and LevelSwitchOn = bit 1 of \<open>B\<close>, the same bit as
  Blocked.
\<close>

theorem decode_status_bits:
  assumes "A < 16" and "B < 16" and "C < 16"
    and "a \<in> {str ''0123456789abcdef'' ! A, str ''0123456789ABCDEF'' ! A}"
    and "b \<in> {str ''0123456789abcdef'' ! B, str ''0123456789ABCDEF'' ! B}"
    and "c \<in> {str ''0123456789abcdef'' ! C, str ''0123456789ABCDEF'' ! C}"
  shows "decode_status dec [a, b, c] =
     Inr [(''Tracking'', bit A 0), (''CCW'', bit A 1), (''FastSpeed'', bit A 2),
          (''Stopped'', \<not> bit B 0), (''Blocked'', bit B 1), (''InitDone'', \<not> bit C 0),
          (''LevelSwitchOn'', bit B 1)]"
proof -
  have "int16 dec a = Inr (int A)" and "int16 dec b = Inr (int B)"
    and "int16 dec c = Inr (int C)"
    using assms int16_digit [of A dec] int16_digit [of B dec] int16_digit [of C dec]
    by auto
  then show ?thesis
    by (simp add: decode_status_digits bit_of_nat_iff_bit)
qed

theorem decode_status_bits_witness:
  "str ''0123456789abcdef'' ! 10 = of_char CHR ''a''
   \<and> str ''0123456789ABCDEF'' ! 6 = of_char CHR ''6''
   \<and> str ''0123456789ABCDEF'' ! 13 = of_char CHR ''D''
   \<and> decode_status Map.empty (str ''a6D'') =
     Inr [(''Tracking'', False), (''CCW'', True), (''FastSpeed'', False), (''Stopped'', True),
          (''Blocked'', True), (''InitDone'', False), (''LevelSwitchOn'', True)]"
proof -
  have n: "(10::nat) < 16" "(6::nat) < 16" "(13::nat) < 16" by simp_all
  have a: "of_char CHR ''a'' \<in> {str ''0123456789abcdef'' ! 10, str ''0123456789ABCDEF'' ! 10}"
    and b: "of_char CHR ''6'' \<in> {str ''0123456789abcdef'' ! 6, str ''0123456789ABCDEF'' ! 6}"
    and c: "of_char CHR ''D'' \<in> {str ''0123456789abcdef'' ! 13, str ''0123456789ABCDEF'' ! 13}"
    by (simp_all add: str_def)
  show ?thesis
    using decode_status_bits [OF n a b c, of Map.empty]
    by (simp add: str_def bit_numeral_simps bit_Suc)
qed

text \<open>
  C4 (as amended). \<^verbatim>\<open>decode_status\<close> raises exactly when the string has fewer than three
  characters or one of its first three characters is not accepted by \<^verbatim>\<open>int(c, 16)\<close>,
  which accepts the ASCII hex digits and the Unicode decimal digits. The exception is
  that of the first position that cannot be read: \<^verbatim>\<open>IndexError\<close> when the string ends
  there, \<^verbatim>\<open>ValueError\<close> when the character there is not accepted. Characters after the
  third are ignored: the string decodes as its first three characters do.
\<close>

theorem decode_status_fails_iff:
  "raised (decode_status dec s) =
     (let n = length (takeWhile (int16_accepts dec) (take 3 s))
      in if n = 3 then None else if n < length s then Some ValueError else Some IndexError)
   \<and> (raised (decode_status dec s) \<noteq> None) =
       (\<not> (3 \<le> length s \<and> list_all (int16_accepts dec) (take 3 s)))
   \<and> decode_status dec (take 3 s) = decode_status dec s"
proof (cases s rule: pystr_shapes)
  case 1
  then show ?thesis
    by (simp add: decode_status_def hex_at_def char_at_def raised_def)
next
  case (2 a)
  then show ?thesis
    using int16_cases [of dec a]
    by (auto simp: decode_status_def hex_at_def char_at_def raised_def)
next
  case (3 a b)
  then show ?thesis
    using int16_cases [of dec a] int16_cases [of dec b]
    by (auto simp: decode_status_def hex_at_def char_at_def raised_def)
next
  case (4 a b c rest)
  then show ?thesis
    using int16_cases [of dec a] int16_cases [of dec b] int16_cases [of dec c]
    by (auto simp: decode_status_def hex_at_def char_at_def raised_def Let_def)
qed

text \<open>
  C4 as stated fails on a string of length 4: \<^verbatim>\<open>"0000"\<close> is decoded like \<^verbatim>\<open>"000"\<close>.
\<close>

theorem decode_status_length_counterexample:
  "\<forall>dec. length (str ''0000'') \<noteq> 3
     \<and> decode_status dec (str ''0000'') = decode_status dec (str ''000'')
     \<and> raised (decode_status dec (str ''0000'')) = None"
  by (simp add: decode_status_def hex_at_def char_at_def int16_def hexdigits_def setitem_def
      raised_def str_def)

section \<open>Properties of the value fetch\<close>

text \<open>The first failing call of the transport ends \<^verbatim>\<open>get_values\<close> with its own error.\<close>

lemma map_of_setitem: "map_of (setitem d k v) k = Some v"
  by (simp add: setitem_def update_conv')

lemma setitem2_ok:
  "map_of params axis = Some d \<Longrightarrow>
     setitem2 params axis parameter v = Inr (setitem params axis (setitem d parameter v))"
  by (simp add: setitem2_def getitem_def)

lemma get_values_items_fail:
  assumes "(parameter, cmd) \<in> set items" and "tr (query cmd axis) = CommFailure msg"
    and "map_of params axis \<noteq> None"
  shows "get_values_items tr axis items params = Inl (NameError ''getValuesError'')"
  using assms
proof (induction items arbitrary: params)
  case Nil
  then show ?case by simp
next
  case (Cons item items)
  obtain p c where item: "item = (p, c)" by (cases item)
  from Cons.prems(3) obtain d where d: "map_of params axis = Some d" by auto
  show ?case
  proof (cases "tr (query c axis)")
    case (CommFailure m)
    then show ?thesis by (simp add: item send_cmd_def)
  next
    case (Reply v)
    with Cons.prems(1,2) item have "(parameter, cmd) \<in> set items" by auto
    moreover have "map_of (setitem params axis (setitem d p v)) axis \<noteq> None"
      by (simp add: map_of_setitem)
    ultimately have "get_values_items tr axis items (setitem params axis (setitem d p v))
        = Inl (NameError ''getValuesError'')"
      using Cons.IH Cons.prems(2) by blast
    then show ?thesis by (simp add: item send_cmd_def Reply setitem2_ok [OF d])
  qed
qed

lemma get_values_items_error:
  assumes "get_values_items tr axis items params = Inl e" and "map_of params axis \<noteq> None"
  shows "e = NameError ''getValuesError''"
  using assms
proof (induction items arbitrary: params)
  case Nil
  then show ?case by simp
next
  case (Cons item items)
  obtain p c where item: "item = (p, c)" by (cases item)
  from Cons.prems(2) obtain d where d: "map_of params axis = Some d" by auto
  show ?case
  proof (cases "tr (query c axis)")
    case (CommFailure m)
    with Cons.prems(1) show ?thesis by (simp add: item send_cmd_def)
  next
    case (Reply v)
    with Cons.prems(1)
    have "get_values_items tr axis items (setitem params axis (setitem d p v)) = Inl e"
      by (simp add: item send_cmd_def setitem2_ok [OF d])
    then show ?thesis
      using Cons.IH by (simp add: map_of_setitem)
  qed
qed

lemma get_values_axes_fail:
  assumes "axis \<in> set axes" and "(parameter, cmd) \<in> set items"
    and "tr (query cmd axis) = CommFailure msg"
  shows "get_values_axes tr axes items params = Inl (NameError ''getValuesError'')"
  using assms(1)
proof (induction axes arbitrary: params)
  case Nil
  then show ?case by simp
next
  case (Cons a axes)
  let ?r = "get_values_items tr a items (setitem params a [])"
  show ?case
  proof (cases ?r)
    case (Inl e)
    then have "e = NameError ''getValuesError''"
      by (rule get_values_items_error) (simp add: map_of_setitem)
    with Inl show ?thesis by simp
  next
    case (Inr params')
    have "a \<noteq> axis"
    proof
      assume "a = axis"
      then have "?r = Inl (NameError ''getValuesError'')"
        using assms(2,3)
          get_values_items_fail [where items = items and axis = axis and tr = tr
            and params = "setitem params a []" and cmd = cmd and parameter = parameter]
        by (simp add: map_of_setitem)
      with Inr show False by simp
    qed
    with Cons.prems have "axis \<in> set axes" by simp
    then show ?thesis using Cons.IH Inr by simp
  qed
qed

lemma get_values_fail:
  assumes "axis \<in> {1, 2}" and "(parameter, cmd) \<in> set parameterDict"
    and "tr (query cmd axis) = CommFailure msg"
  shows "get_values tr parameterDict = Inl (NameError ''getValuesError'')"
  unfolding get_values_def
  using assms
    get_values_axes_fail [where axes = "[1, 2]" and axis = axis and tr = tr
      and items = parameterDict and cmd = cmd and parameter = parameter and params = "[]"]
  by simp

lemma get_values_current_cases:
  "get_values tr parameterDict_current = Inl (NameError ''getValuesError'') \<or>
   (\<exists>h1 j1 i1 f1 h2 j2 i2 f2.
      tr (query ''h'' 1) = Reply h1 \<and> tr (query ''j'' 1) = Reply j1 \<and>
      tr (query ''i'' 1) = Reply i1 \<and> tr (query ''f'' 1) = Reply f1 \<and>
      tr (query ''h'' 2) = Reply h2 \<and> tr (query ''j'' 2) = Reply j2 \<and>
      tr (query ''i'' 2) = Reply i2 \<and> tr (query ''f'' 2) = Reply f2 \<and>
      get_values tr parameterDict_current =
        Inr [(1, [(''GotoTarget'', h1), (''Position'', j1), (''StepPeriod'', i1), (''Status'', f1)]),
             (2, [(''GotoTarget'', h2), (''Position'', j2), (''StepPeriod'', i2), (''Status'', f2)])])"
  by (auto simp: get_values_def parameterDict_current_def send_cmd_def setitem2_def
      getitem_def setitem_def split: reply.splits)

lemma process_current:
  "(case offset_parameters [''GotoTarget'', ''Position'']
        [(1, [(''GotoTarget'', h1), (''Position'', j1), (''StepPeriod'', i1), (''Status'', f1)]),
         (2, [(''GotoTarget'', h2), (''Position'', j2), (''StepPeriod'', i2), (''Status'', f2)])]
    of Inl e \<Rightarrow> Inl e | Inr params \<Rightarrow> decode_axes dec [1, 2] params) = Inr params
   \<Longrightarrow> \<exists>g1 p1 s1 st1 g2 p2 s2 st2.
        h1 = PInt g1 \<and> j1 = PInt p1 \<and> f1 = PStr s1 \<and> decode_status dec s1 = Inr st1 \<and>
        h2 = PInt g2 \<and> j2 = PInt p2 \<and> f2 = PStr s2 \<and> decode_status dec s2 = Inr st2 \<and>
        params =
          [(1, [(''GotoTarget'', PInt (g1 - 0x800000)), (''Position'', PInt (p1 - 0x800000)),
                (''StepPeriod'', i1), (''Status'', PDict st1)]),
           (2, [(''GotoTarget'', PInt (g2 - 0x800000)), (''Position'', PInt (p2 - 0x800000)),
                (''StepPeriod'', i2), (''Status'', PDict st2)])]"
  by (auto simp: getitem2_def setitem2_def getitem_def setitem_def py_sub_def
      decode_status_of_def split: sum.splits pyval.splits)


text \<open>What \<^verbatim>\<open>get_current_values\<close> can return: the empty dictionary, an exception, or
  the complete dictionary built from the eight replies.\<close>

lemmas eval_defs = get_current_values_def get_values_def parameterDict_current_def send_cmd_def
  mount_sim_def mount_sim_timeout_def str_def setitem2_def getitem2_def getitem_def setitem_def py_sub_def decode_status_of_def
  decode_status_def hex_at_def char_at_def int16_def hexdigits_def py_bool_def py_not_def

lemma get_current_values_cases:
  "get_current_values dec tr = Inr [] \<or> (\<exists>e. get_current_values dec tr = Inl e) \<or>
   (\<exists>g1 p1 i1 s1 st1 g2 p2 i2 s2 st2.
      tr (query ''h'' 1) = Reply (PInt g1) \<and> tr (query ''j'' 1) = Reply (PInt p1) \<and>
      tr (query ''i'' 1) = Reply i1 \<and> tr (query ''f'' 1) = Reply (PStr s1) \<and>
      tr (query ''h'' 2) = Reply (PInt g2) \<and> tr (query ''j'' 2) = Reply (PInt p2) \<and>
      tr (query ''i'' 2) = Reply i2 \<and> tr (query ''f'' 2) = Reply (PStr s2) \<and>
      decode_status dec s1 = Inr st1 \<and> decode_status dec s2 = Inr st2 \<and>
      get_current_values dec tr =
        Inr [(1, [(''GotoTarget'', PInt (g1 - 0x800000)), (''Position'', PInt (p1 - 0x800000)),
                  (''StepPeriod'', i1), (''Status'', PDict st1)]),
             (2, [(''GotoTarget'', PInt (g2 - 0x800000)), (''Position'', PInt (p2 - 0x800000)),
                  (''StepPeriod'', i2), (''Status'', PDict st2)])])"
proof -
  consider (fail) "get_values tr parameterDict_current = Inl (NameError ''getValuesError'')"
    | (ok) h1 j1 i1 f1 h2 j2 i2 f2 where
      "tr (query ''h'' 1) = Reply h1" "tr (query ''j'' 1) = Reply j1"
      "tr (query ''i'' 1) = Reply i1" "tr (query ''f'' 1) = Reply f1"
      "tr (query ''h'' 2) = Reply h2" "tr (query ''j'' 2) = Reply j2"
      "tr (query ''i'' 2) = Reply i2" "tr (query ''f'' 2) = Reply f2"
      "get_values tr parameterDict_current =
        Inr [(1, [(''GotoTarget'', h1), (''Position'', j1), (''StepPeriod'', i1), (''Status'', f1)]),
             (2, [(''GotoTarget'', h2), (''Position'', j2), (''StepPeriod'', i2), (''Status'', f2)])]"
    using get_values_current_cases [of tr] by blast
  then show ?thesis
  proof cases
    case fail
    then show ?thesis by (simp add: get_current_values_def)
  next
    case ok
    show ?thesis
    proof (cases "get_current_values dec tr")
      case (Inl e)
      then show ?thesis by simp
    next
      case (Inr params)
      with ok(9) have "(case offset_parameters [''GotoTarget'', ''Position'']
        [(1, [(''GotoTarget'', h1), (''Position'', j1), (''StepPeriod'', i1), (''Status'', f1)]),
         (2, [(''GotoTarget'', h2), (''Position'', j2), (''StepPeriod'', i2), (''Status'', f2)])]
        of Inl e \<Rightarrow> Inl e | Inr params \<Rightarrow> decode_axes dec [1, 2] params) = Inr params"
        by (simp add: get_current_values_def)
      from process_current [OF this] ok(1-8) Inr show ?thesis by auto
    qed
  qed
qed

text \<open>
  C8. If the transport fails on any of the eight queries of \<^verbatim>\<open>get_current_values\<close>
  (any axis, any field), the call returns the empty dictionary, and so raises nothing.
\<close>

theorem get_current_values_transport_failure:
  assumes "axis \<in> {1, 2}" and "(parameter, cmd) \<in> set parameterDict_current"
    and "tr (query cmd axis) = CommFailure msg"
  shows "get_current_values dec tr = Inr []"
  using assms get_values_fail [where tr = tr and axis = axis and cmd = cmd
      and parameter = parameter and parameterDict = parameterDict_current and msg = msg]
  by (simp add: get_current_values_def)

theorem get_current_values_transport_failure_witness:
  "mount_sim_timeout (query ''i'' 2) = CommFailure ''SynScanSocketTimeOut'' \<and>
   get_current_values Map.empty mount_sim_timeout = Inr []"
proof -
  have a: "(2::int) \<in> {1, 2}" by simp
  have b: "(''StepPeriod'', ''i'') \<in> set parameterDict_current"
    by (simp add: parameterDict_current_def)
  have c: "mount_sim_timeout (query ''i'' 2) = CommFailure ''SynScanSocketTimeOut''"
    by (simp add: mount_sim_timeout_def)
  show ?thesis
    using a b c get_current_values_transport_failure [where dec = Map.empty and tr = mount_sim_timeout
        and axis = 2 and cmd = "''i''" and parameter = "''StepPeriod''"
        and msg = "''SynScanSocketTimeOut''"]
    by simp
qed


text \<open>
  C10. A non-empty result of \<^verbatim>\<open>get_current_values\<close> has exactly the axes 1 and 2, each
  with exactly the keys GotoTarget, Position, StepPeriod and Status, GotoTarget and
  Position being integers and Status a dictionary with exactly the seven flags Tracking,
  CCW, FastSpeed, Stopped, Blocked, InitDone and LevelSwitchOn, each a boolean.
\<close>

theorem get_current_values_complete:
  assumes "get_current_values dec tr = Inr params" and "params \<noteq> []"
  shows "map fst params = [1, 2] \<and>
    (\<forall>axis \<in> {1, 2}. \<exists>g p sp status.
        map_of params axis =
          Some [(''GotoTarget'', PInt g), (''Position'', PInt p), (''StepPeriod'', sp),
                (''Status'', PDict status)]
        \<and> map fst status = [''Tracking'', ''CCW'', ''FastSpeed'', ''Stopped'', ''Blocked'',
            ''InitDone'', ''LevelSwitchOn''])"
  using get_current_values_cases [of dec tr] assms
  by (auto dest!: decode_status_keys)

theorem get_current_values_complete_witness:
  "\<exists>params. get_current_values Map.empty mount_sim = Inr params \<and> params \<noteq> []
     \<and> map fst params = [1, 2]
     \<and> (\<exists>g p sp status.
          map_of params 2 =
            Some [(''GotoTarget'', PInt g), (''Position'', PInt p), (''StepPeriod'', sp),
                  (''Status'', PDict status)]
          \<and> map fst status = [''Tracking'', ''CCW'', ''FastSpeed'', ''Stopped'', ''Blocked'',
              ''InitDone'', ''LevelSwitchOn''])"
proof -
  have r: "get_current_values Map.empty mount_sim =
      Inr [(1, [(''GotoTarget'', PInt 100), (''Position'', PInt 100),
                (''StepPeriod'', PInt 8388708),
                (''Status'', PDict [(''Tracking'', True), (''CCW'', False),
                   (''FastSpeed'', False), (''Stopped'', True), (''Blocked'', False),
                   (''InitDone'', False), (''LevelSwitchOn'', False)])]),
           (2, [(''GotoTarget'', PInt 200), (''Position'', PInt 200),
                (''StepPeriod'', PInt 8388808),
                (''Status'', PDict [(''Tracking'', True), (''CCW'', False),
                   (''FastSpeed'', False), (''Stopped'', True), (''Blocked'', False),
                   (''InitDone'', False), (''LevelSwitchOn'', False)])])]"
    by (simp add: eval_defs)
  show ?thesis using get_current_values_complete [OF r] by (simp add: r)
qed



section \<open>Properties of the parameter fetch\<close>

lemma get_values_parameters_cases:
  "get_values tr parameterDict_parameters = Inl (NameError ''getValuesError'') \<or>
   (\<exists>a1 b1 i1 e1 a2 b2 i2 e2.
      tr (query ''a'' 1) = Reply a1 \<and> tr (query ''b'' 1) = Reply b1 \<and>
      tr (query ''i'' 1) = Reply i1 \<and> tr (query ''e'' 1) = Reply e1 \<and>
      tr (query ''a'' 2) = Reply a2 \<and> tr (query ''b'' 2) = Reply b2 \<and>
      tr (query ''i'' 2) = Reply i2 \<and> tr (query ''e'' 2) = Reply e2 \<and>
      get_values tr parameterDict_parameters =
        Inr [(1, [(''countsPerRevolution'', a1), (''TimerInterruptFreq'', b1),
                  (''StepPeriod'', i1), (''MotorBoardVersion'', e1)]),
             (2, [(''countsPerRevolution'', a2), (''TimerInterruptFreq'', b2),
                  (''StepPeriod'', i2), (''MotorBoardVersion'', e2)])])"
  by (auto simp: get_values_def parameterDict_parameters_def send_cmd_def setitem2_def
      getitem_def setitem_def split: reply.splits)

text \<open>
  C9. \<^verbatim>\<open>get_parameters\<close> returns all or nothing: if the transport fails on any of the
  eight queries, the call raises \<^verbatim>\<open>NameError('getParametersError')\<close> and leaves the
  object as it was; a returned dictionary has the axes 1 and 2, each with the four
  parameters, holding the replies of the transport; and no other exception is raised.
\<close>

theorem get_parameters_all_or_nothing:
  "(axis \<in> {1, 2} \<and> (parameter, cmd) \<in> set parameterDict_parameters
      \<and> tr (query cmd axis) = CommFailure msg
      \<longrightarrow> get_parameters tr self = (Inl (NameError ''getParametersError''), self))
   \<and> (fst (get_parameters tr self) = Inr params \<longrightarrow>
        map fst params = [1, 2] \<and>
        (\<forall>ax \<in> {1, 2}. \<exists>cpr tmr sp ver.
            map_of params ax =
              Some [(''countsPerRevolution'', cpr), (''TimerInterruptFreq'', tmr),
                    (''StepPeriod'', sp), (''MotorBoardVersion'', ver)]
            \<and> tr (query ''a'' ax) = Reply cpr \<and> tr (query ''b'' ax) = Reply tmr
            \<and> tr (query ''i'' ax) = Reply sp \<and> tr (query ''e'' ax) = Reply ver))
   \<and> (\<forall>e. fst (get_parameters tr self) = Inl e \<longrightarrow> e = NameError ''getParametersError'')"
proof (intro conjI impI allI)
  assume "axis \<in> {1, 2} \<and> (parameter, cmd) \<in> set parameterDict_parameters
      \<and> tr (query cmd axis) = CommFailure msg"
  then have "get_values tr parameterDict_parameters = Inl (NameError ''getValuesError'')"
    using get_values_fail [where tr = tr and axis = axis and cmd = cmd
      and parameter = parameter and parameterDict = parameterDict_parameters and msg = msg]
    by simp
  then show "get_parameters tr self = (Inl (NameError ''getParametersError''), self)"
    by (simp add: get_parameters_def)
next
  assume ok: "fst (get_parameters tr self) = Inr params"
  then show "map fst params = [1, 2]"
    using get_values_parameters_cases [of tr] by (auto simp: get_parameters_def)
  from ok show "\<forall>ax \<in> {1, 2}. \<exists>cpr tmr sp ver.
            map_of params ax =
              Some [(''countsPerRevolution'', cpr), (''TimerInterruptFreq'', tmr),
                    (''StepPeriod'', sp), (''MotorBoardVersion'', ver)]
            \<and> tr (query ''a'' ax) = Reply cpr \<and> tr (query ''b'' ax) = Reply tmr
            \<and> tr (query ''i'' ax) = Reply sp \<and> tr (query ''e'' ax) = Reply ver"
    using get_values_parameters_cases [of tr] by (auto simp: get_parameters_def)
next
  fix e
  assume "fst (get_parameters tr self) = Inl e"
  then show "e = NameError ''getParametersError''"
    using get_values_parameters_cases [of tr] by (auto simp: get_parameters_def)
qed

theorem get_parameters_all_or_nothing_witness:
  "get_parameters mount_sim_timeout mount_cache =
     (Inl (NameError ''getParametersError''), mount_cache)
   \<and> (\<exists>params. fst (get_parameters mount_sim mount_cache) = Inr params
        \<and> map fst params = [1, 2]
        \<and> map_of params 1 =
            Some [(''countsPerRevolution'', PInt 9024000), (''TimerInterruptFreq'', PInt 64935),
                  (''StepPeriod'', PInt 8388708), (''MotorBoardVersion'', PInt 8388708)])"
proof -
  let ?params =
    "[(1::int, [(''countsPerRevolution'', PInt 9024000), (''TimerInterruptFreq'', PInt 64935),
           (''StepPeriod'', PInt 8388708), (''MotorBoardVersion'', PInt 8388708)]),
      (2, [(''countsPerRevolution'', PInt 9024000), (''TimerInterruptFreq'', PInt 64935),
           (''StepPeriod'', PInt 8388808), (''MotorBoardVersion'', PInt 8388808)])]"
  have a: "(2::int) \<in> {1, 2}" by simp
  have b: "(''StepPeriod'', ''i'') \<in> set parameterDict_parameters"
    by (simp add: parameterDict_parameters_def)
  have c: "mount_sim_timeout (query ''i'' 2) = CommFailure ''SynScanSocketTimeOut''"
    by (simp add: mount_sim_timeout_def)
  have r: "fst (get_parameters mount_sim mount_cache) = Inr ?params"
    by (simp add: get_parameters_def parameterDict_parameters_def eval_defs)
  have "get_parameters mount_sim_timeout mount_cache =
     (Inl (NameError ''getParametersError''), mount_cache)"
    using a b c
      get_parameters_all_or_nothing [where tr = mount_sim_timeout and axis = 2
        and cmd = "''i''" and parameter = "''StepPeriod''" and msg = "''SynScanSocketTimeOut''"
        and self = mount_cache and params = "[]"]
    by blast
  moreover have "map fst ?params = [1, 2]"
    by (rule get_parameters_all_or_nothing [where tr = mount_sim and self = mount_cache
          and params = ?params and axis = 1 and cmd = "''a''" and parameter = "''a''"
          and msg = "''a''", THEN conjunct2, THEN conjunct1, THEN mp, OF r, THEN conjunct1])
  ultimately show ?thesis using r by simp
qed

section \<open>Properties of the motion mode\<close>

text \<open>
  C3. \<^verbatim>\<open>set_motion_mode\<close> sends command \<^verbatim>\<open>G\<close> with a width of two hex digits and a byte
  whose bit 0 is the tracking flag, bit 1 the speed bit (when tracking: 0 for fast, 1 for
  slow; when not tracking: 1 for fast, 0 for slow), bit 7 the clockwise flag, and no
  other bit set. Tracking, slow, not clockwise gives 0x03; goto, fast, clockwise gives
  0x82.
\<close>

theorem set_motion_mode_byte:
  "(\<exists>val. set_motion_mode tr axis Tracking fastSpeed CW =
        send_cmd tr \<lparr>c_cmd = ''G'', c_axis = axis, c_data = Some val, c_ndigits = Some 2\<rparr>
      \<and> bit val 0 = Tracking
      \<and> bit val 1 = (if Tracking then \<not> fastSpeed else fastSpeed)
      \<and> bit val 7 = CW
      \<and> val = of_bool Tracking + 2 * of_bool (if Tracking then \<not> fastSpeed else fastSpeed)
                + 128 * of_bool CW)
   \<and> set_motion_mode tr axis True False False =
        send_cmd tr \<lparr>c_cmd = ''G'', c_axis = axis, c_data = Some 0x03, c_ndigits = Some 2\<rparr>
   \<and> set_motion_mode tr axis False True True =
        send_cmd tr \<lparr>c_cmd = ''G'', c_axis = axis, c_data = Some 0x82, c_ndigits = Some 2\<rparr>"
proof -
  define val :: int where
    "val = of_bool Tracking + 2 * of_bool (if Tracking then \<not> fastSpeed else fastSpeed)
             + 128 * of_bool CW"
  have sent: "set_motion_mode tr axis Tracking fastSpeed CW =
      send_cmd tr \<lparr>c_cmd = ''G'', c_axis = axis, c_data = Some val, c_ndigits = Some 2\<rparr>"
    by (cases Tracking; cases fastSpeed; cases CW) (simp_all add: set_motion_mode_def val_def)
  have b0: "bit val 0 = Tracking"
    by (cases Tracking; cases fastSpeed; cases CW) (simp_all add: val_def)
  have b1: "bit val 1 = (if Tracking then \<not> fastSpeed else fastSpeed)"
    by (cases Tracking; cases fastSpeed; cases CW) (simp_all add: val_def bit_Suc)
  have b7: "bit val 7 = CW"
    by (cases Tracking; cases fastSpeed; cases CW) (simp_all add: val_def bit_numeral_simps)
  have ex1: "set_motion_mode tr axis True False False =
      send_cmd tr \<lparr>c_cmd = ''G'', c_axis = axis, c_data = Some 0x03, c_ndigits = Some 2\<rparr>"
    by (simp add: set_motion_mode_def)
  have ex2: "set_motion_mode tr axis False True True =
      send_cmd tr \<lparr>c_cmd = ''G'', c_axis = axis, c_data = Some 0x82, c_ndigits = Some 2\<rparr>"
    by (simp add: set_motion_mode_def)
  from sent b0 b1 b7 val_def ex1 ex2 show ?thesis by blast
qed

section \<open>Properties of the timer preset\<close>

lemma to_float_finite: "to_float rnd n = Inr g \<Longrightarrow> \<exists>y. g = Finite y"
  by (auto simp: to_float_def split: if_splits option.splits)

lemma to_float_exact: "\<bar>n\<bar> \<le> 2 ^ 53 \<Longrightarrow> to_float rnd n = Inr (Finite (real_of_int n))"
  by (simp add: to_float_def)

lemma to_float_360: "to_float rnd 360 = Inr (Finite 360)"
  by (simp add: to_float_def)

lemma T1preset_zero_counts:
  assumes "degrees2counts rnd self axis d = Inr (Finite 0)"
  shows "raised (T1preset rnd self axis d) \<noteq> None"
  using assms
  by (simp add: T1preset_def raised_def fdiv_def split: sum.splits)

lemma zero_times:
  assumes "to_float rnd CPR = Inr g"
  shows "py_truediv rnd (PyFloat (fmul rnd (Finite 0) g)) (PyInt 360) = Inr (Finite 0)"
proof -
  from assms obtain y where "g = Finite y" by (auto dest: to_float_finite)
  then show ?thesis by (simp add: to_float_360 fdiv_def fround_def)
qed

lemma degrees2counts_zero:
  assumes "getitem2 (self_params self) axis ''countsPerRevolution'' = Inr (PInt CPR)"
    and "d \<in> {PyInt 0, PyFloat (Finite 0)}"
  shows "raised (degrees2counts rnd self axis d) \<noteq> None
       \<or> degrees2counts rnd self axis d = Inr (Finite 0)"
proof (cases "d = PyInt 0")
  case True
  with assms(1) show ?thesis
    by (simp add: degrees2counts_def int_of_def fround_def)
next
  case False
  with assms(2) have d: "d = PyFloat (Finite 0)" by simp
  show ?thesis
  proof (cases "to_float rnd CPR")
    case (Inl e)
    with assms(1) d show ?thesis
      by (simp add: degrees2counts_def int_of_def raised_def)
  next
    case (Inr g)
    with assms(1) d zero_times [OF Inr] show ?thesis
      by (simp add: degrees2counts_def int_of_def)
  qed
qed

lemma degrees2counts_zero_exact:
  assumes "getitem2 (self_params self) axis ''countsPerRevolution'' = Inr (PInt CPR)"
    and "\<bar>CPR\<bar> \<le> 2 ^ 53" and "d \<in> {PyInt 0, PyFloat (Finite 0)}"
  shows "degrees2counts rnd self axis d = Inr (Finite 0)"
proof (cases "d = PyInt 0")
  case True
  with assms(1) show ?thesis
    by (simp add: degrees2counts_def int_of_def fround_def)
next
  case False
  with assms(3) have d: "d = PyFloat (Finite 0)" by simp
  have g: "to_float rnd CPR = Inr (Finite (real_of_int CPR))"
    using assms(2) by (rule to_float_exact)
  with assms(1) d zero_times [OF g] show ?thesis
    by (simp add: degrees2counts_def int_of_def)
qed

text \<open>
  C6. With a positive \<^verbatim>\<open>countsPerRevolution\<close> cached for the axis, \<^verbatim>\<open>T1preset\<close> at a
  speed equal to zero (the integer 0 or a float zero) raises an exception, and so
  returns no number, no infinity and no NaN; whenever the derived counts per second
  are zero, for whatever speed, \<^verbatim>\<open>T1preset\<close> raises as well. When the cached counts per
  revolution and timer frequency are integers of at most 53 bits, the exception at
  speed zero is \<^verbatim>\<open>ZeroDivisionError\<close>.
\<close>

theorem T1preset_zero_speed:
  assumes "getitem2 (self_params self) axis ''countsPerRevolution'' = Inr (PInt CPR)"
    and "0 < CPR"
    and "degreesPerSecond \<in> {PyInt 0, PyFloat (Finite 0)}"
  shows "raised (T1preset rnd self axis degreesPerSecond) \<noteq> None
    \<and> (\<forall>d. degrees2counts rnd self axis d = Inr (Finite 0)
          \<longrightarrow> raised (T1preset rnd self axis d) \<noteq> None)
    \<and> (\<forall>freq. getitem2 (self_params self) axis ''TimerInterruptFreq'' = Inr (PInt freq)
            \<and> \<bar>freq\<bar> \<le> 2 ^ 53 \<and> CPR \<le> 2 ^ 53
          \<longrightarrow> T1preset rnd self axis degreesPerSecond = Inl ZeroDivisionError)"
proof (intro conjI allI impI)
  show "raised (T1preset rnd self axis degreesPerSecond) \<noteq> None"
    using degrees2counts_zero [OF assms(1,3), of rnd]
  proof
    assume "raised (degrees2counts rnd self axis degreesPerSecond) \<noteq> None"
    then show ?thesis
      by (auto simp: T1preset_def raised_def split: sum.splits)
  next
    assume "degrees2counts rnd self axis degreesPerSecond = Inr (Finite 0)"
    then show ?thesis by (rule T1preset_zero_counts)
  qed
next
  fix d
  assume "degrees2counts rnd self axis d = Inr (Finite 0)"
  then show "raised (T1preset rnd self axis d) \<noteq> None"
    by (rule T1preset_zero_counts)
next
  fix freq
  assume f: "getitem2 (self_params self) axis ''TimerInterruptFreq'' = Inr (PInt freq)
            \<and> \<bar>freq\<bar> \<le> 2 ^ 53 \<and> CPR \<le> 2 ^ 53"
  with assms(2) have "\<bar>CPR\<bar> \<le> 2 ^ 53" by simp
  then have "degrees2counts rnd self axis degreesPerSecond = Inr (Finite 0)"
    using assms(3) by (rule degrees2counts_zero_exact [OF assms(1)])
  with f show "T1preset rnd self axis degreesPerSecond = Inl ZeroDivisionError"
    by (simp add: T1preset_def int_of_def to_float_exact fdiv_def)
qed

theorem T1preset_zero_speed_witness:
  "getitem2 (self_params mount_cache) 1 ''countsPerRevolution'' = Inr (PInt 9024000)
   \<and> getitem2 (self_params mount_cache) 1 ''TimerInterruptFreq'' = Inr (PInt 64935)
   \<and> degrees2counts Some mount_cache 1 (PyFloat (Finite 0)) = Inr (Finite 0)
   \<and> raised (T1preset Some mount_cache 1 (PyFloat (Finite 0))) \<noteq> None
   \<and> T1preset Some mount_cache 1 (PyFloat (Finite 0)) = Inl ZeroDivisionError"
proof -
  have c: "getitem2 (self_params mount_cache) 1 ''countsPerRevolution'' = Inr (PInt 9024000)"
    by (simp add: mount_cache_def getitem2_def getitem_def)
  have f: "getitem2 (self_params mount_cache) 1 ''TimerInterruptFreq'' = Inr (PInt 64935)"
    by (simp add: mount_cache_def getitem2_def getitem_def)
  have p: "(0::int) < 9024000" by simp
  have z: "PyFloat (Finite 0) \<in> {PyInt 0, PyFloat (Finite 0)}" by simp
  have d: "degrees2counts Some mount_cache 1 (PyFloat (Finite 0)) = Inr (Finite 0)"
    by (rule degrees2counts_zero_exact [OF c _ z]) simp
  note T = T1preset_zero_speed [OF c p z, of Some]
  have "raised (T1preset Some mount_cache 1 (PyFloat (Finite 0))) \<noteq> None"
    by (rule T [THEN conjunct1])
  moreover have "T1preset Some mount_cache 1 (PyFloat (Finite 0)) = Inl ZeroDivisionError"
    using T [THEN conjunct2, THEN conjunct2] f by simp
  ultimately show ?thesis using c f d by simp
qed

end
